theory Spec2Isabelle
  imports Complex_Main "HOL-Library.Word"
begin

unbundle bit_operations_syntax

section \<open>Python values, errors and byte arrays\<close>

text \<open>
  The module \<^verbatim>\<open>utils/stepperMotorControl.py\<close> builds command frames for a ZDT stepper
  driver in byte arrays, collects a reply from a UART until the line has been silent for
  more than 100 ms, and decodes a position report. Python integers are unbounded
  (\<^typ>\<open>int\<close>), the elements of a \<^verbatim>\<open>bytearray\<close> are bytes (\<^typ>\<open>8 word\<close>), and every
  exception the code can raise is a value of \<open>error\<close>.
\<close>

datatype error = ValueError | IndexError | StructError

text \<open>
  The store \<^verbatim>\<open>cmd[k] = v\<close> into a byte array is the one place where the two
  interpreters that can run the module differ. Standard Python (CPython) raises
  \<^verbatim>\<open>ValueError: byte must be in range(0, 256)\<close> for a value outside 0..255.
  MicroPython, whose \<^verbatim>\<open>time.ticks_ms\<close>, \<^verbatim>\<open>time.ticks_diff\<close> and
  \<^verbatim>\<open>time.sleep_ms\<close> the module calls, keeps the low eight bits of the value and
  raises nothing. The interpreter is therefore a parameter of every function that stores
  into a byte array.
\<close>

datatype runtime = CPython | MicroPython

type_synonym byte = "8 word"

definition is_byte :: "int \<Rightarrow> bool" where
  "is_byte v = (0 \<le> v \<and> v < 256)"

definition bytearray :: "nat \<Rightarrow> byte list" where
  "bytearray n = replicate n 0"

definition setitem :: "runtime \<Rightarrow> byte list \<Rightarrow> nat \<Rightarrow> int \<Rightarrow> error + byte list" where
  "setitem rt cmd k v =
     (if length cmd \<le> k then Inl IndexError
      else case rt of
        CPython \<Rightarrow> (if is_byte v then Inr (cmd[k := word_of_int v]) else Inl ValueError)
      | MicroPython \<Rightarrow> Inr (cmd[k := word_of_int v]))"

text \<open>
  A run of assignments \<^verbatim>\<open>cmd[k1] = v1; cmd[k2] = v2; ...\<close> in program order: the first
  store that raises ends the function.
\<close>

fun setitems :: "runtime \<Rightarrow> byte list \<Rightarrow> (nat \<times> int) list \<Rightarrow> error + byte list" where
  "setitems rt cmd [] = Inr cmd"
| "setitems rt cmd ((k, v) # kvs) =
     (case setitem rt cmd k v of Inl e \<Rightarrow> Inl e | Inr cmd' \<Rightarrow> setitems rt cmd' kvs)"

text \<open>The slice \<^verbatim>\<open>cmd[:n]\<close> of the array that the stores produced.\<close>

definition upto_index :: "nat \<Rightarrow> error + byte list \<Rightarrow> error + byte list" where
  "upto_index n r = (case r of Inl e \<Rightarrow> Inl e | Inr cmd \<Rightarrow> Inr (take n cmd))"

text \<open>A flag byte \<^verbatim>\<open>0x01 if f else 0x00\<close>.\<close>

definition flag :: "bool \<Rightarrow> int" where
  "flag f = (if f then 0x01 else 0x00)"

section \<open>Command encoders\<close>

definition func_codes :: "(string \<times> int) list" where
  "func_codes =
     [(''S_VER'', 0x1F), (''S_RL'', 0x20), (''S_PID'', 0x21), (''S_VBUS'', 0x24),
      (''S_CPHA'', 0x27), (''S_ENCL'', 0x31), (''S_TPOS'', 0x33), (''S_VEL'', 0x35),
      (''S_CPOS'', 0x36), (''S_PERR'', 0x37), (''S_FLAG'', 0x3A), (''S_ORG'', 0x3B),
      (''S_Conf'', 0x42), (''S_State'', 0x43)]"

text \<open>
  \<^verbatim>\<open>Read_Sys_Params\<close> counts the bytes it has written in \<^verbatim>\<open>i\<close>: the function code is
  stored only for a name of the table, and the check byte follows at the next index.
\<close>

definition Read_Sys_Params :: "runtime \<Rightarrow> int \<Rightarrow> string \<Rightarrow> error + byte list" where
  "Read_Sys_Params rt addr s =
     (case map_of func_codes s of
        Some code \<Rightarrow> upto_index 3 (setitems rt (bytearray 16) [(0, addr), (1, code), (2, 0x6B)])
      | None \<Rightarrow> upto_index 2 (setitems rt (bytearray 16) [(0, addr), (1, 0x6B)]))"

definition Reset_CurPos_To_Zero :: "runtime \<Rightarrow> int \<Rightarrow> error + byte list" where
  "Reset_CurPos_To_Zero rt addr =
     setitems rt (bytearray 4) [(0, addr), (1, 0x0A), (2, 0x6D), (3, 0x6B)]"

definition Reset_Clog_Pro :: "runtime \<Rightarrow> int \<Rightarrow> error + byte list" where
  "Reset_Clog_Pro rt addr =
     setitems rt (bytearray 4) [(0, addr), (1, 0x0E), (2, 0x52), (3, 0x6B)]"

definition Modify_Ctrl_Mode :: "runtime \<Rightarrow> int \<Rightarrow> bool \<Rightarrow> int \<Rightarrow> error + byte list" where
  "Modify_Ctrl_Mode rt addr svF ctrl_mode =
     setitems rt (bytearray 6)
       [(0, addr), (1, 0x46), (2, 0x69), (3, flag svF), (4, ctrl_mode), (5, 0x6B)]"

definition En_Control :: "runtime \<Rightarrow> int \<Rightarrow> bool \<Rightarrow> bool \<Rightarrow> error + byte list" where
  "En_Control rt addr state snF =
     upto_index 6 (setitems rt (bytearray 16)
       [(0, addr), (1, 0xF3), (2, 0xAB), (3, flag state), (4, flag snF), (5, 0x6B)])"

definition Vel_Control :: "runtime \<Rightarrow> int \<Rightarrow> int \<Rightarrow> int \<Rightarrow> int \<Rightarrow> bool \<Rightarrow> error + byte list" where
  "Vel_Control rt addr dir vel acc snF =
     upto_index 8 (setitems rt (bytearray 16)
       [(0, addr), (1, 0xF6), (2, dir),
        (3, drop_bit 8 vel AND 0xFF), (4, vel AND 0xFF),
        (5, acc), (6, flag snF), (7, 0x6B)])"

definition Pos_Control ::
    "runtime \<Rightarrow> int \<Rightarrow> int \<Rightarrow> int \<Rightarrow> int \<Rightarrow> int \<Rightarrow> bool \<Rightarrow> bool \<Rightarrow> error + byte list" where
  "Pos_Control rt addr dir vel acc clk raF snF =
     upto_index 13 (setitems rt (bytearray 16)
       [(0, addr), (1, 0xFD), (2, dir),
        (3, drop_bit 8 vel AND 0xFF), (4, vel AND 0xFF),
        (5, acc),
        (6, drop_bit 24 clk AND 0xFF), (7, drop_bit 16 clk AND 0xFF),
        (8, drop_bit 8 clk AND 0xFF), (9, clk AND 0xFF),
        (10, flag raF), (11, flag snF), (12, 0x6B)])"

definition Stop_Now :: "runtime \<Rightarrow> int \<Rightarrow> bool \<Rightarrow> error + byte list" where
  "Stop_Now rt addr snF =
     setitems rt (bytearray 5) [(0, addr), (1, 0xFE), (2, 0x98), (3, flag snF), (4, 0x6B)]"

definition Synchronous_motion :: "runtime \<Rightarrow> int \<Rightarrow> error + byte list" where
  "Synchronous_motion rt addr =
     setitems rt (bytearray 4) [(0, addr), (1, 0xFF), (2, 0x66), (3, 0x6B)]"

definition Origin_Set_O :: "runtime \<Rightarrow> int \<Rightarrow> bool \<Rightarrow> error + byte list" where
  "Origin_Set_O rt addr svF =
     setitems rt (bytearray 5) [(0, addr), (1, 0x93), (2, 0x88), (3, flag svF), (4, 0x6B)]"

definition Origin_Modify_Params ::
    "runtime \<Rightarrow> int \<Rightarrow> bool \<Rightarrow> int \<Rightarrow> int \<Rightarrow> int \<Rightarrow> int \<Rightarrow> int \<Rightarrow> int \<Rightarrow> int \<Rightarrow> bool
       \<Rightarrow> error + byte list" where
  "Origin_Modify_Params rt addr svF o_mode o_dir o_vel o_tm sl_vel sl_ma sl_ms potF =
     setitems rt (bytearray 20)
       [(0, addr), (1, 0x4C), (2, 0xAE), (3, flag svF), (4, o_mode), (5, o_dir),
        (6, drop_bit 8 o_vel AND 0xFF), (7, o_vel AND 0xFF),
        (8, drop_bit 24 o_tm AND 0xFF), (9, drop_bit 16 o_tm AND 0xFF),
        (10, drop_bit 8 o_tm AND 0xFF), (11, o_tm AND 0xFF),
        (12, drop_bit 8 sl_vel AND 0xFF), (13, sl_vel AND 0xFF),
        (14, drop_bit 8 sl_ma AND 0xFF), (15, sl_ma AND 0xFF),
        (16, drop_bit 8 sl_ms AND 0xFF), (17, sl_ms AND 0xFF),
        (18, flag potF), (19, 0x6B)]"

definition Origin_Trigger_Return :: "runtime \<Rightarrow> int \<Rightarrow> int \<Rightarrow> bool \<Rightarrow> error + byte list" where
  "Origin_Trigger_Return rt addr o_mode snF =
     setitems rt (bytearray 5) [(0, addr), (1, 0x9A), (2, o_mode), (3, flag snF), (4, 0x6B)]"

definition Origin_Interrupt :: "runtime \<Rightarrow> int \<Rightarrow> error + byte list" where
  "Origin_Interrupt rt addr =
     setitems rt (bytearray 4) [(0, addr), (1, 0x9C), (2, 0x48), (3, 0x6B)]"

section \<open>Notions used to state the properties of the encoders\<close>

text \<open>A call returns (a frame) when it raises nothing.\<close>

definition returns :: "error + 'a \<Rightarrow> bool" where
  "returns r = (case r of Inl e \<Rightarrow> False | Inr x \<Rightarrow> True)"

text \<open>A frame of the given length that ends with the check byte \<^verbatim>\<open>0x6B\<close>.\<close>

definition well_formed :: "nat \<Rightarrow> error + byte list \<Rightarrow> bool" where
  "well_formed n r = (case r of Inl e \<Rightarrow> False | Inr f \<Rightarrow> length f = n \<and> last f = 0x6B)"

text \<open>Big-endian reassembly of a field: the first byte is the most significant.\<close>

definition be_int :: "byte list \<Rightarrow> int" where
  "be_int bs = foldl (\<lambda>a b. a * 256 + uint b) 0 bs"

section \<open>Properties of the command encoders\<close>

subsection \<open>Bytes, masks and stores\<close>

lemma bytearray_simps:
  "bytearray 4 = [0, 0, 0, 0]"
  "bytearray 5 = [0, 0, 0, 0, 0]"
  "bytearray 6 = [0, 0, 0, 0, 0, 0]"
  "bytearray 16 = [0, 0, 0, 0, 0, 0, 0, 0, 0, 0, 0, 0, 0, 0, 0, 0]"
  "bytearray 20 = [0, 0, 0, 0, 0, 0, 0, 0, 0, 0, 0, 0, 0, 0, 0, 0, 0, 0, 0, 0]"
  by (simp_all add: bytearray_def numeral_eq_Suc)

text \<open>Python's \<^verbatim>\<open>x & 0xFF\<close> and \<^verbatim>\<open>x >> n\<close> on unbounded integers, negative ones included.\<close>

lemma and_255: "(x::int) AND 0xFF = x mod 256"
proof -
  have "(0xFF::int) = mask 8" by (simp add: mask_eq_exp_minus_1)
  then have "x AND 0xFF = x AND mask 8" by simp
  also have "\<dots> = take_bit 8 x" by (simp only: take_bit_eq_mask)
  also have "\<dots> = x mod 256" by (simp add: take_bit_eq_mod)
  finally show ?thesis .
qed

lemma drop_bit_div:
  "drop_bit 8 (x::int) = x div 256"
  "drop_bit 16 (x::int) = x div 65536"
  "drop_bit 24 (x::int) = x div 16777216"
  by (simp_all add: drop_bit_eq_div)

lemma is_byte_mod: "is_byte (x mod 256)"
  by (simp add: is_byte_def)

lemma is_byte_flag: "is_byte (flag f)"
  by (simp add: is_byte_def flag_def)

lemma is_byte_numeral: "is_byte (numeral n) = (numeral n < (256::int))"
  by (simp add: is_byte_def)

lemma is_byte_01: "is_byte 0" "is_byte 1"
  by (simp_all add: is_byte_def)

text \<open>A value in 0..255 is stored unchanged by both interpreters.\<close>

lemma setitem_byte:
  "is_byte v \<Longrightarrow> k < length cmd \<Longrightarrow> setitem rt cmd k v = Inr (cmd[k := word_of_int v])"
  by (cases rt) (simp_all add: setitem_def)

lemma setitem_MicroPython:
  "k < length cmd \<Longrightarrow> setitem MicroPython cmd k v = Inr (cmd[k := word_of_int v])"
  by (simp add: setitem_def)

lemma setitem_CPython:
  "k < length cmd \<Longrightarrow>
   setitem CPython cmd k v = (if is_byte v then Inr (cmd[k := word_of_int v]) else Inl ValueError)"
  by (simp add: setitem_def)

text \<open>The byte that a store keeps is the value modulo 256.\<close>

lemma uint_stored: "uint (word_of_int v :: byte) = v mod 256"
  by (simp add: uint_word_of_int take_bit_eq_mod)

lemma uint_byte: "uint (word_of_int (x mod 256) :: byte) = x mod 256"
  by (simp add: uint_word_of_int take_bit_eq_mod)

lemma func_codes_byte: "map_of func_codes s = Some c \<Longrightarrow> is_byte c"
  by (auto simp: func_codes_def is_byte_def split: if_splits)

lemma join2: "(x div 256 mod 256) * 256 + x mod 256 = (x::int) mod 65536"
proof -
  have "x mod 65536 = x mod (256 * 256)" by simp
  also have "\<dots> = 256 * (x div 256 mod 256) + x mod 256" by (rule zmod_zmult2_eq) simp
  finally show ?thesis by simp
qed

lemma join4:
  "(((x div 16777216 mod 256) * 256 + x div 65536 mod 256) * 256 + x div 256 mod 256) * 256
     + x mod 256 = (x::int) mod 4294967296"
proof -
  have a: "x mod 4294967296 = x mod (65536 * 65536)" by simp
  have b: "x mod (65536 * 65536) = 65536 * (x div 65536 mod 65536) + x mod 65536"
    by (rule zmod_zmult2_eq) simp
  have c: "x div 65536 div 256 = x div 16777216"
    by (simp add: zdiv_zmult2_eq [symmetric])
  show ?thesis
    unfolding a b join2 [symmetric, of x] join2 [symmetric, of "x div 65536"] c
    by simp
qed

lemmas enc_simps =
  upto_index_def bytearray_simps setitem_byte and_255 drop_bit_div
  is_byte_mod is_byte_flag is_byte_numeral

subsection \<open>A worked frame\<close>

text \<open>
  C8. Encoding a position-control command with address 1, direction 0, velocity 300,
  acceleration 5, 3200 pulses, the relative flag set and the sync flag clear returns
  exactly the 13 bytes 01 FD 00 01 2C 05 00 00 0C 80 01 00 6B, under either interpreter.
\<close>

theorem Pos_Control_scenario:
  "Pos_Control rt 1 0 300 5 3200 True False =
     Inr [0x01, 0xFD, 0x00, 0x01, 0x2C, 0x05, 0x00, 0x00, 0x0C, 0x80, 0x01, 0x00, 0x6B]"
  by (simp add: Pos_Control_def enc_simps is_byte_01 flag_def)

end
